theory Spec2Isabelle
  imports Main "HOL-Library.Word"
begin

unbundle bit_operations_syntax

section \<open>capnpy.blob: reading a capnp object out of a byte buffer\<close>

text \<open>
  The development follows \<^verbatim>\<open>capnpy/blob.py\<close>. A Python exception is a value
  \<open>Inl e\<close> of the result type \<open>error + 'a\<close>; Python's \<^verbatim>\<open>None\<close> is the
  \<open>None\<close> of an option type. Python integers are unbounded, so every offset is an
  \<open>int\<close>: nothing in the source keeps an offset from being negative.
\<close>

subsection \<open>Errors\<close>

text \<open>
  The source has no exception classes of its own. It fails through \<^verbatim>\<open>assert\<close>
  (an AssertionError; one constructor of \<open>assertion\<close> for each asserted condition)
  and through \<^verbatim>\<open>struct.unpack_from\<close> (a \<^verbatim>\<open>struct.error\<close>). The specification
  names the failures by their cause: its BoundsError is \<open>StructError\<close> for a
  primitive read and \<open>AssertionError OffsetInBuffer\<close> for a construction, its
  TypeMismatchError is \<open>AssertionError SizeTagIsSize8\<close>, and its DecodeError is
  \<open>AssertionError KindIsStruct\<close>, \<open>AssertionError KindIsList\<close> and
  \<open>AssertionError UnknownPointerKind\<close>. The constructors \<open>BoundsError\<close> and
  \<open>DecodeError\<close> are raised only by the pointer class, which is modelled from the
  specification below.
\<close>

datatype assertion =
    OffsetInBuffer
  | SizeTagIsSize8
  | KindIsStruct
  | KindIsList
  | UnknownPointerKind

datatype error =
    StructError
  | AssertionError assertion
  | BoundsError
  | DecodeError

definition and_then :: "error + 'a \<Rightarrow> ('a \<Rightarrow> error + 'b) \<Rightarrow> error + 'b" where
  "and_then r f = (case r of Inl e \<Rightarrow> Inl e | Inr x \<Rightarrow> f x)"

subsection \<open>The buffer and the struct module\<close>

type_synonym byte = "8 word"

text \<open>
  Modelled from the spec: \<^verbatim>\<open>capnpy.type.Types\<close>, the descriptors of the primitive
  types, is not among the sources. The specification gives a primitive a width and a
  signedness or float; \<open>calcsize\<close> and \<open>is_signed\<close> are those of the \<^verbatim>\<open>struct\<close>
  format characters b, B, h, H, i, I, q, Q, f and d. A float is held as its IEEE-754
  bit pattern, read as an unsigned number: what the bits denote is outside the model.
\<close>

datatype primtype =
    int8 | uint8 | int16 | uint16 | int32 | uint32 | int64 | uint64
  | float32 | float64

fun calcsize :: "primtype \<Rightarrow> nat" where
  "calcsize int8 = 1"
| "calcsize uint8 = 1"
| "calcsize int16 = 2"
| "calcsize uint16 = 2"
| "calcsize int32 = 4"
| "calcsize uint32 = 4"
| "calcsize int64 = 8"
| "calcsize uint64 = 8"
| "calcsize float32 = 4"
| "calcsize float64 = 8"

fun is_signed :: "primtype \<Rightarrow> bool" where
  "is_signed int8 = True"
| "is_signed int16 = True"
| "is_signed int32 = True"
| "is_signed int64 = True"
| "is_signed t = False"

text \<open>Little-endian: the first byte is the least significant one.\<close>

fun le_uint :: "byte list \<Rightarrow> int" where
  "le_uint [] = 0"
| "le_uint (x # xs) = uint x + 256 * le_uint xs"

definition le_sint :: "byte list \<Rightarrow> int" where
  "le_sint bs =
     (let u = le_uint bs; w = 8 * length bs
      in if u < 2 ^ (w - 1) then u else u - 2 ^ w)"

definition unpack :: "primtype \<Rightarrow> byte list \<Rightarrow> int" where
  "unpack t bs = (if is_signed t then le_sint bs else le_uint bs)"

text \<open>
  \<^verbatim>\<open>struct.unpack_from('<' + t.fmt, buf, off)[0]\<close> of the Python standard library:
  a negative offset counts from the end of the buffer; the call raises
  \<^verbatim>\<open>struct.error\<close> unless \<open>calcsize t\<close> bytes lie between the offset and the end.
\<close>

definition unpack_from :: "primtype \<Rightarrow> byte list \<Rightarrow> int \<Rightarrow> error + int" where
  "unpack_from t bf off =
     (let n = int (length bf);
          start = (if off < 0 then off + n else off)
      in if start < 0 \<or> n - start < int (calcsize t) then Inl StructError
         else Inr (unpack t (take (calcsize t) (drop (nat start) bf))))"

text \<open>
  The slice \<^verbatim>\<open>buf[start:end]\<close> of Python: a negative index counts from the end,
  both indices are clipped to the sequence, and the slice is empty when the end is not
  after the start. It never raises.
\<close>

definition clip_index :: "int \<Rightarrow> int \<Rightarrow> nat" where
  "clip_index n i = nat (if i < 0 then max 0 (i + n) else min i n)"

definition slice :: "'a list \<Rightarrow> int \<Rightarrow> int \<Rightarrow> 'a list" where
  "slice xs start stop =
     (let n = int (length xs); s = clip_index n start; e = clip_index n stop
      in take (e - s) (drop s xs))"

subsection \<open>The accessor\<close>

text \<open>
  An instance of \<^verbatim>\<open>Blob\<close> or of a subclass: \<open>cls\<close> is the name of its class, the
  other fields are \<^verbatim>\<open>_buf\<close>, \<^verbatim>\<open>_offset\<close> and \<^verbatim>\<open>_segment_offsets\<close>. The buffer
  and the segment table are immutable Python values, so the record holds them by
  value: two accessors hold the same buffer when their \<open>buf\<close> fields are equal.
  \<^verbatim>\<open>Blob.__new__\<close> raises, so \<open>from_buffer\<close> is the one way to an accessor. The
  assertions are taken as enabled. \<^verbatim>\<open>_print_buf\<close>, the diagnostic printer, is left
  out.
\<close>

record blob =
  cls :: string
  buf :: "byte list"
  offset :: int
  segment_offsets :: "int list"

definition from_buffer :: "string \<Rightarrow> byte list \<Rightarrow> int \<Rightarrow> int list \<Rightarrow> error + blob" where
  "from_buffer c bf off segs =
     (if off < int (length bf)
      then Inr \<lparr>cls = c, buf = bf, offset = off, segment_offsets = segs\<rparr>
      else Inl (AssertionError OffsetInBuffer))"

definition read_primitive :: "blob \<Rightarrow> int \<Rightarrow> primtype \<Rightarrow> error + int" where
  "read_primitive b off t = unpack_from t (buf b) (offset b + off)"

definition read_bit :: "blob \<Rightarrow> int \<Rightarrow> int \<Rightarrow> error + bool" where
  "read_bit b off bitmask =
     and_then (read_primitive b off uint8) (\<lambda>val. Inr (val AND bitmask \<noteq> 0))"

text \<open>
  \<^verbatim>\<open>_read_enum\<close> hands the value read to \<^verbatim>\<open>enumtype\<close>, a class the caller passes:
  any callable, which may raise.
\<close>

definition read_enum :: "blob \<Rightarrow> int \<Rightarrow> (int \<Rightarrow> error + 'e) \<Rightarrow> error + 'e" where
  "read_enum b off enumtype = and_then (read_primitive b off int16) enumtype"

text \<open>\<^verbatim>\<open>Ptr\<close> is a subclass of \<^verbatim>\<open>int\<close>: a pointer is the 64-bit word read, signed.\<close>

type_synonym ptr = int

definition read_ptr :: "blob \<Rightarrow> int \<Rightarrow> error + ptr" where
  "read_ptr b off = read_primitive b off int64"

subsection \<open>Pointer words\<close>

text \<open>
  Modelled from the spec: \<^verbatim>\<open>capnpy.ptr\<close> (Ptr, StructPtr, ListPtr, FarPtr) is not
  among the sources. The fields are those of the specification's wire layout: bits
  [0:2) the kind (0 struct, 1 list, 2 far, 3 reserved); for a struct or list pointer
  bits [2:32) the signed offset in words, counted from the word after the pointer;
  for a struct pointer bits [32:48) the data words and [48:64) the pointer words; for
  a list pointer bits [32:35) the size tag and [35:64) the element count; for a far
  pointer bit 2 the double-far flag, bits [3:32) the word offset in the target segment
  and bits [32:64) the segment id. \<^verbatim>\<open>specialize\<close> fails on the reserved kind.
\<close>

definition StructPtr_KIND :: int where "StructPtr_KIND = 0"
definition ListPtr_KIND :: int where "ListPtr_KIND = 1"
definition FarPtr_KIND :: int where "FarPtr_KIND = 2"
definition ListPtr_SIZE_8 :: int where "ListPtr_SIZE_8 = 2"

definition ptr_kind :: "ptr \<Rightarrow> int" where
  "ptr_kind p = take_bit 2 p"

definition ptr_offset :: "ptr \<Rightarrow> int" where
  "ptr_offset p = signed_take_bit 29 (drop_bit 2 p)"

definition ptr_data_size :: "ptr \<Rightarrow> int" where
  "ptr_data_size p = take_bit 16 (drop_bit 32 p)"

definition ptr_ptrs_size :: "ptr \<Rightarrow> int" where
  "ptr_ptrs_size p = take_bit 16 (drop_bit 48 p)"

definition ptr_size_tag :: "ptr \<Rightarrow> int" where
  "ptr_size_tag p = take_bit 3 (drop_bit 32 p)"

definition ptr_item_count :: "ptr \<Rightarrow> int" where
  "ptr_item_count p = take_bit 29 (drop_bit 35 p)"

definition far_landing_pad :: "ptr \<Rightarrow> int" where
  "far_landing_pad p = take_bit 1 (drop_bit 2 p)"

definition far_offset :: "ptr \<Rightarrow> int" where
  "far_offset p = take_bit 29 (drop_bit 3 p)"

definition far_target :: "ptr \<Rightarrow> int" where
  "far_target p = take_bit 32 (drop_bit 32 p)"

definition deref :: "ptr \<Rightarrow> int \<Rightarrow> int" where
  "deref p off = off + (ptr_offset p + 1) * 8"

definition specialize :: "ptr \<Rightarrow> error + ptr" where
  "specialize p = (if ptr_kind p = 3 then Inl DecodeError else Inr p)"

text \<open>
  Modelled from the spec: \<^verbatim>\<open>FarPtr.follow\<close>, the specification's far-pointer
  resolution. The segment id is looked up in the segment table (BoundsError when it is
  out of range) and the landing pad is read at segment base + offset * 8. With the
  double-far flag clear the word there is the real pointer, which must not be far.
  With the flag set the first word of the pad gives the segment and offset of the
  content and the second word is the real pointer, with a relative offset of zero.
  The source dereferences the returned pointer at the returned offset
  (\<^verbatim>\<open>ptr.deref(offset)\<close>) and adds \<^verbatim>\<open>self._offset\<close>, so the offset returned is
  relative to the accessor.
\<close>

definition segment_start :: "int list \<Rightarrow> int \<Rightarrow> error + int" where
  "segment_start segs i =
     (if 0 \<le> i \<and> i < int (length segs) then Inr (segs ! nat i) else Inl BoundsError)"

definition follow :: "ptr \<Rightarrow> blob \<Rightarrow> error + (int \<times> ptr)" where
  "follow p b =
     and_then (segment_start (segment_offsets b) (far_target p)) (\<lambda>base.
       let pad = base + far_offset p * 8 - offset b in
       and_then (read_ptr b pad) (\<lambda>w0.
         if far_landing_pad p = 0 then
           (if ptr_kind w0 = FarPtr_KIND \<or> ptr_kind w0 = 3 then Inl DecodeError
            else Inr (pad, w0))
         else
           and_then (read_ptr b (pad + 8)) (\<lambda>w1.
             if ptr_kind w1 = FarPtr_KIND \<or> ptr_kind w1 = 3 then Inl DecodeError
             else
               and_then (segment_start (segment_offsets b) (far_target w0)) (\<lambda>base'.
                 Inr (base' + far_offset w0 * 8 - 8 - offset b, w1)))))"

subsection \<open>Following pointers\<close>

definition deref_ptrstruct :: "blob \<Rightarrow> int \<Rightarrow> error + int option" where
  "deref_ptrstruct b off =
     and_then (read_ptr b off) (\<lambda>p.
       if p = 0 then Inr None
       else
         and_then
           (if ptr_kind p = FarPtr_KIND
            then and_then (specialize p) (\<lambda>p. follow p b)
            else Inr (off, p))
           (\<lambda>(off, p).
              if ptr_kind p = StructPtr_KIND then Inr (Some (deref p off))
              else Inl (AssertionError KindIsStruct)))"

text \<open>
  \<^verbatim>\<open>_deref_ptrlist\<close> returns the triple (offset, size_tag, item_count), and three
  \<^verbatim>\<open>None\<close> for a null pointer: here \<open>None\<close> or \<open>Some\<close> of the triple.
\<close>

definition deref_ptrlist :: "blob \<Rightarrow> int \<Rightarrow> error + (int \<times> int \<times> int) option" where
  "deref_ptrlist b off =
     and_then (read_ptr b off) (\<lambda>p.
       if p = 0 then Inr None
       else
         and_then
           (if ptr_kind p = FarPtr_KIND
            then and_then (specialize p) (\<lambda>p. follow p b)
            else Inr (off, p))
           (\<lambda>(off, p).
              if ptr_kind p = ListPtr_KIND
              then and_then (specialize p) (\<lambda>p.
                     Inr (Some (deref p off, ptr_size_tag p, ptr_item_count p)))
              else Inl (AssertionError KindIsList)))"

subsection \<open>The accessors of the other modules\<close>

text \<open>
  Modelled from the spec: \<^verbatim>\<open>capnpy.struct_.GenericStruct\<close> and \<^verbatim>\<open>capnpy.list.List\<close>
  are not among the sources. By the specification a struct accessor is an accessor
  with the data and pointer word counts of its pointer, and a list accessor is an
  accessor with the size tag and item count handed to it; both are obtained under the
  construction contract of \<open>from_buffer\<close>. Reading the tag word of a composite list is
  part of element access and is not modelled.
\<close>

record struct_blob = blob +
  data_size :: int
  ptrs_size :: int

record list_blob = blob +
  size_tag :: int
  item_count :: int
  item_type :: string

definition GenericStruct_from_buffer_and_size ::
  "byte list \<Rightarrow> int \<Rightarrow> int list \<Rightarrow> int \<Rightarrow> int \<Rightarrow> error + struct_blob" where
  "GenericStruct_from_buffer_and_size bf off segs dsize psize =
     and_then (from_buffer ''GenericStruct'' bf off segs) (\<lambda>b.
       Inr \<lparr>cls = cls b, buf = buf b, offset = offset b,
            segment_offsets = segment_offsets b,
            data_size = dsize, ptrs_size = psize\<rparr>)"

definition List_from_buffer ::
  "string \<Rightarrow> byte list \<Rightarrow> int \<Rightarrow> int list \<Rightarrow> int \<Rightarrow> int \<Rightarrow> string \<Rightarrow> error + list_blob" where
  "List_from_buffer c bf off segs tag n ty =
     and_then (from_buffer c bf off segs) (\<lambda>b.
       Inr \<lparr>cls = cls b, buf = buf b, offset = offset b,
            segment_offsets = segment_offsets b,
            size_tag = tag, item_count = n, item_type = ty\<rparr>)"

datatype generic_ref = GenericStruct struct_blob | GenericList list_blob

subsection \<open>Reading fields\<close>

text \<open>
  \<^verbatim>\<open>structcls\<close>, \<^verbatim>\<open>listcls\<close> and \<^verbatim>\<open>groupcls\<close> are classes the caller passes,
  here by name. A struct or a group class inherits \<open>from_buffer\<close> from \<^verbatim>\<open>Blob\<close>; a
  list class has the constructor of \<^verbatim>\<open>List\<close>.
\<close>

definition read_struct :: "blob \<Rightarrow> int \<Rightarrow> string \<Rightarrow> error + blob option" where
  "read_struct b off structcls =
     and_then (deref_ptrstruct b off) (\<lambda>struct_offset.
       case struct_offset of
         None \<Rightarrow> Inr None
       | Some so \<Rightarrow>
           and_then (from_buffer structcls (buf b) (offset b + so) (segment_offsets b))
             (\<lambda>s. Inr (Some s)))"

definition read_list :: "blob \<Rightarrow> int \<Rightarrow> string \<Rightarrow> string \<Rightarrow> error + list_blob option" where
  "read_list b off listcls ty =
     and_then (deref_ptrlist b off) (\<lambda>r.
       case r of
         None \<Rightarrow> Inr None
       | Some (off, tag, n) \<Rightarrow>
           and_then
             (List_from_buffer listcls (buf b) (offset b + off) (segment_offsets b) tag n ty)
             (\<lambda>l. Inr (Some l)))"

definition read_string :: "blob \<Rightarrow> int \<Rightarrow> error + byte list option" where
  "read_string b off =
     and_then (deref_ptrlist b off) (\<lambda>r.
       case r of
         None \<Rightarrow> Inr None
       | Some (off, tag, n) \<Rightarrow>
           if tag = ListPtr_SIZE_8
           then (let start = offset b + off; stop = start + n - 1
                 in Inr (Some (slice (buf b) start stop)))
           else Inl (AssertionError SizeTagIsSize8))"

definition read_data :: "blob \<Rightarrow> int \<Rightarrow> error + byte list option" where
  "read_data b off =
     and_then (deref_ptrlist b off) (\<lambda>r.
       case r of
         None \<Rightarrow> Inr None
       | Some (off, tag, n) \<Rightarrow>
           if tag = ListPtr_SIZE_8
           then (let start = offset b + off; stop = start + n
                 in Inr (Some (slice (buf b) start stop)))
           else Inl (AssertionError SizeTagIsSize8))"

definition read_group :: "blob \<Rightarrow> string \<Rightarrow> error + blob" where
  "read_group b groupcls =
     from_buffer groupcls (buf b) (offset b) (segment_offsets b)"

definition follow_generic_pointer :: "blob \<Rightarrow> int \<Rightarrow> error + generic_ref option" where
  "follow_generic_pointer b ptr_off =
     and_then (read_ptr b ptr_off) (\<lambda>p.
       if p = 0 then Inr None
       else
         and_then (specialize p) (\<lambda>p.
           let blob_offet = deref p ptr_off in
           if ptr_kind p = StructPtr_KIND then
             and_then
               (GenericStruct_from_buffer_and_size (buf b) (offset b + blob_offet)
                  (segment_offsets b) (ptr_data_size p) (ptr_ptrs_size p))
               (\<lambda>s. Inr (Some (GenericStruct s)))
           else if ptr_kind p = ListPtr_KIND then
             and_then
               (List_from_buffer ''List'' (buf b) (offset b + blob_offet)
                  (segment_offsets b) (ptr_size_tag p) (ptr_item_count p) ''Blob'')
               (\<lambda>l. Inr (Some (GenericList l)))
           else Inl (AssertionError UnknownPointerKind)))"

text \<open>
  Modelled from the spec: the enum classes the callers pass to \<^verbatim>\<open>_read_enum\<close> are
  not among the sources. By the specification an enum value is its integer code, the
  caller maps the code to a named variant, and a code that names no variant is a valid
  unknown state: constructing the value never fails.
\<close>

record enum_value =
  members :: "string list"
  code :: int

definition enum_new :: "string list \<Rightarrow> int \<Rightarrow> error + enum_value" where
  "enum_new ms v = Inr \<lparr>members = ms, code = v\<rparr>"

definition enum_name :: "enum_value \<Rightarrow> string option" where
  "enum_name e =
     (if 0 \<le> code e \<and> code e < int (length (members e))
      then Some (members e ! nat (code e)) else None)"

subsection \<open>Example messages\<close>

text \<open>
  \<open>msg_null\<close> is one null pointer word. \<open>msg_fields\<close> is four words: a struct pointer
  (offset 1, one data word), a list pointer (offset 1, one-byte elements, three of
  them), the struct's data word holding 42, and the bytes \<^verbatim>\<open>h\<close>, \<^verbatim>\<open>i\<close>, NUL.
  \<open>msg_words\<close> is a list pointer to one eight-byte element. \<open>msg_short\<close> is a list
  pointer to three one-byte elements in a buffer that ends after the second.
  \<open>msg_empty\<close> is a list pointer to no one-byte elements, followed by a word.
  \<open>msg_self\<close> is a list pointer to no one-byte elements with offset -1: the list
  starts at the pointer's own first byte, byte 0 of the buffer. \<open>msg_far\<close> is a far
  pointer to word 1 of segment 0, where a struct pointer (offset 0, one data word)
  stands before the struct's data word. \<open>msg_enum\<close> is three 16-bit values: -2,
  4660 (hexadecimal 1234) and 1.
\<close>

definition msg_null :: "byte list" where
  "msg_null = [0, 0, 0, 0, 0, 0, 0, 0]"

definition msg_fields :: "byte list" where
  "msg_fields =
     [0x04, 0, 0, 0, 0x01, 0, 0, 0,
      0x05, 0, 0, 0, 0x1A, 0, 0, 0,
      0x2A, 0, 0, 0, 0, 0, 0, 0,
      0x68, 0x69, 0, 0, 0, 0, 0, 0]"

definition msg_words :: "byte list" where
  "msg_words =
     [0x01, 0, 0, 0, 0x0D, 0, 0, 0,
      0x07, 0, 0, 0, 0, 0, 0, 0]"

definition msg_short :: "byte list" where
  "msg_short = [0x01, 0, 0, 0, 0x1A, 0, 0, 0, 0x68, 0x69]"

definition msg_empty :: "byte list" where
  "msg_empty =
     [0x01, 0, 0, 0, 0x02, 0, 0, 0,
      0x68, 0x69, 0, 0, 0, 0, 0, 0]"

definition msg_self :: "byte list" where
  "msg_self = [0xFD, 0xFF, 0xFF, 0xFF, 0x02, 0, 0, 0]"

definition msg_far :: "byte list" where
  "msg_far =
     [0x0A, 0, 0, 0, 0, 0, 0, 0,
      0, 0, 0, 0, 0x01, 0, 0, 0,
      0x07, 0, 0, 0, 0, 0, 0, 0]"

definition msg_enum :: "byte list" where
  "msg_enum = [0xFE, 0xFF, 0x34, 0x12, 0x01, 0x00]"

definition blob_at :: "byte list \<Rightarrow> blob" where
  "blob_at bf = \<lparr>cls = ''Blob'', buf = bf, offset = 0, segment_offsets = [0]\<rparr>"

definition blob_before :: blob where
  "blob_before = \<lparr>cls = ''Blob'', buf = msg_null, offset = - 3, segment_offsets = [0]\<rparr>"

section \<open>Properties\<close>

subsection \<open>Bytes, numbers and slices\<close>

lemma take_drop_nth:
  "a + w \<le> length xs \<Longrightarrow> take w (drop a xs) = map (\<lambda>i. xs ! (a + i)) [0..<w]"
  by (rule nth_equalityI) simp_all

lemma unpack_from_nonneg:
  "0 \<le> off \<Longrightarrow>
   unpack_from t bf off =
     (if int (length bf) < off + int (calcsize t) then Inl StructError
      else Inr (unpack t (take (calcsize t) (drop (nat off) bf))))"
  by (auto simp: unpack_from_def Let_def)

lemma unpack_from_past_end:
  "int (length bf) < off + int (calcsize t) \<Longrightarrow> unpack_from t bf off = Inl StructError"
  by (auto simp: unpack_from_def Let_def)

lemma unpack_from_cases:
  "unpack_from t bf off = Inl StructError \<or>
   (\<exists>bs. length bs = calcsize t \<and> unpack_from t bf off = Inr (unpack t bs))"
proof (cases "unpack_from t bf off")
  case (Inl e)
  then show ?thesis
    by (auto simp: unpack_from_def Let_def split: if_splits)
next
  case (Inr v)
  let ?start = "if off < 0 then off + int (length bf) else off"
  from Inr have ok: "0 \<le> ?start" "int (calcsize t) \<le> int (length bf) - ?start"
    by (auto simp: unpack_from_def Let_def split: if_splits)
  then have "calcsize t \<le> length bf - nat ?start"
    by linarith
  then have "length (take (calcsize t) (drop (nat ?start) bf)) = calcsize t"
    by simp
  moreover from Inr ok have "unpack_from t bf off = Inr (unpack t (take (calcsize t) (drop (nat ?start) bf)))"
    by (auto simp: unpack_from_def Let_def split: if_splits)
  ultimately show ?thesis
    by blast
qed

lemma le_uint_nonneg: "0 \<le> le_uint bs"
  by (induction bs) simp_all

lemma le_uint_less: "le_uint bs < 2 ^ (8 * length bs)"
proof (induction bs)
  case Nil
  show ?case by simp
next
  case (Cons x xs)
  have "uint x < 256"
    using uint_bounded [of x] by simp
  moreover have "le_uint xs + 1 \<le> 2 ^ (8 * length xs)"
    using Cons.IH by simp
  then have "256 * (le_uint xs + 1) \<le> 256 * 2 ^ (8 * length xs)"
    by (rule mult_left_mono) simp
  moreover have "(2::int) ^ (8 * length (x # xs)) = 256 * 2 ^ (8 * length xs)"
    by (simp add: power_add)
  ultimately show ?case
    by simp
qed

lemma le_uint_zero_iff: "le_uint bs = 0 \<longleftrightarrow> (\<forall>x \<in> set bs. x = 0)"
proof (induction bs)
  case Nil
  show ?case by simp
next
  case (Cons x xs)
  have "0 \<le> uint x" "0 \<le> le_uint xs"
    by (simp_all add: le_uint_nonneg)
  then have "uint x + 256 * le_uint xs = 0 \<longleftrightarrow> uint x = 0 \<and> le_uint xs = 0"
    by arith
  with Cons.IH show ?case
    by (simp add: uint_0_iff)
qed

lemma le_sint_zero_iff: "le_sint bs = 0 \<longleftrightarrow> (\<forall>x \<in> set bs. x = 0)"
proof -
  have "le_sint bs = 0 \<longleftrightarrow> le_uint bs = 0"
    using le_uint_less [of bs] le_uint_nonneg [of bs]
    by (auto simp: le_sint_def Let_def)
  then show ?thesis
    by (simp add: le_uint_zero_iff)
qed

lemma le_sint_bounds:
  assumes "bs \<noteq> []"
  shows "- (2 ^ (8 * length bs - 1)) \<le> le_sint bs \<and> le_sint bs < 2 ^ (8 * length bs - 1)"
proof -
  from assms have "8 * length bs = Suc (8 * length bs - 1)"
    by (cases bs) simp_all
  then have "(2::int) ^ (8 * length bs) = 2 * 2 ^ (8 * length bs - 1)"
    by (metis power_Suc)
  then show ?thesis
    using le_uint_less [of bs] le_uint_nonneg [of bs]
    by (auto simp: le_sint_def Let_def)
qed

lemma le_sint_two_bytes:
  "le_sint [x, y] =
     (let u = uint x + 256 * uint y in if u < 32768 then u else u - 65536)"
  by (simp add: le_sint_def Let_def)

lemma slice_in_range:
  assumes "0 \<le> s" and "s \<le> e" and "e \<le> int (length xs)"
  shows "slice xs s e = map (\<lambda>i. xs ! (nat s + i)) [0..<nat (e - s)]"
proof -
  have "clip_index (int (length xs)) s = nat s" "clip_index (int (length xs)) e = nat e"
    using assms by (simp_all add: clip_index_def)
  moreover have "nat e - nat s = nat (e - s)"
    using assms by linarith
  moreover have "nat s + nat (e - s) \<le> length xs"
    using assms by linarith
  ultimately show ?thesis
    by (simp add: slice_def take_drop_nth)
qed

text \<open>The definitions that evaluating a read on a concrete message unfolds.\<close>

lemmas eval_defs =
  blob_at_def read_struct_def read_list_def read_string_def read_data_def read_group_def
  follow_generic_pointer_def deref_ptrstruct_def deref_ptrlist_def follow_def segment_start_def
  read_ptr_def read_primitive_def
  unpack_from_def unpack_def le_sint_def and_then_def from_buffer_def
  GenericStruct_from_buffer_and_size_def List_from_buffer_def
  ptr_kind_def ptr_offset_def ptr_data_size_def ptr_ptrs_size_def ptr_size_tag_def
  ptr_item_count_def far_landing_pad_def far_offset_def far_target_def deref_def specialize_def
  StructPtr_KIND_def ListPtr_KIND_def FarPtr_KIND_def ListPtr_SIZE_8_def
  slice_def clip_index_def

subsection \<open>Null pointers\<close>

text \<open>
  The pointer word that \<open>read_ptr\<close> fetches is zero exactly when its eight bytes are
  zero.
\<close>

lemma read_ptr_null_iff:
  assumes "0 \<le> offset b + off" and "offset b + off + 8 \<le> int (length (buf b))"
  shows "read_ptr b off = Inr 0 \<longleftrightarrow>
         (\<forall>i < 8. buf b ! (nat (offset b + off) + i) = 0)"
proof -
  let ?a = "nat (offset b + off)"
  have len: "?a + 8 \<le> length (buf b)"
    using assms by linarith
  have "read_ptr b off = Inr (le_sint (take 8 (drop ?a (buf b))))"
    using assms by (simp add: read_ptr_def read_primitive_def unpack_from_nonneg unpack_def)
  moreover have "set (take 8 (drop ?a (buf b))) = (\<lambda>i. buf b ! (?a + i)) ` {0..<8}"
    using len by (simp add: take_drop_nth)
  ultimately show ?thesis
    by (auto simp: le_sint_zero_iff)
qed

text \<open>
  Claim C1. When the pointer word at the given offset is the null pointer (all eight
  bytes zero, so that \<open>read_ptr\<close> returns 0), reading a struct, a list, a text or a
  data field there returns \<open>None\<close>: the read raises nothing and constructs no
  accessor.
\<close>

theorem null_pointer_reads_None:
  assumes "read_ptr b off = Inr 0"
  shows "read_struct b off structcls = Inr None \<and>
         read_list b off listcls ty = Inr None \<and>
         read_string b off = Inr None \<and>
         read_data b off = Inr None"
  using assms
  by (simp add: read_struct_def read_list_def read_string_def read_data_def
      deref_ptrstruct_def deref_ptrlist_def and_then_def)

theorem null_pointer_reads_None_witness:
  "read_ptr (blob_at msg_null) 0 = Inr 0 \<and>
   read_struct (blob_at msg_null) 0 ''Point'' = Inr None \<and>
   read_list (blob_at msg_null) 0 ''List'' ''Point'' = Inr None \<and>
   read_string (blob_at msg_null) 0 = Inr None \<and>
   read_data (blob_at msg_null) 0 = Inr None"
proof -
  have null: "read_ptr (blob_at msg_null) 0 = Inr 0"
    by (simp add: msg_null_def blob_at_def read_ptr_def read_primitive_def unpack_from_def
        unpack_def le_sint_def)
  from null null_pointer_reads_None [OF null] show ?thesis
    by simp
qed

subsection \<open>Primitive reads\<close>

text \<open>
  Claim C2, amended. For every primitive read: when the absolute offset (accessor
  offset + field offset) plus the width of the value is past the length of the buffer,
  the read fails with \<open>StructError\<close> (the specification's BoundsError, a value and
  not the end of the process); otherwise, when the absolute offset is not negative, it
  returns the little-endian value of the bytes at that position, every one of which
  lies inside the buffer.
\<close>

theorem read_primitive_in_bounds:
  "(int (length (buf b)) < offset b + off + int (calcsize t) \<longrightarrow>
      read_primitive b off t = Inl StructError) \<and>
   (0 \<le> offset b + off \<and> offset b + off + int (calcsize t) \<le> int (length (buf b)) \<longrightarrow>
      read_primitive b off t =
        Inr (unpack t (map (\<lambda>i. buf b ! (nat (offset b + off) + i)) [0..<calcsize t])) \<and>
      (\<forall>i < calcsize t. nat (offset b + off) + i < length (buf b)))"
proof (intro conjI impI)
  assume "int (length (buf b)) < offset b + off + int (calcsize t)"
  then show "read_primitive b off t = Inl StructError"
    by (simp add: read_primitive_def unpack_from_past_end)
next
  assume a: "0 \<le> offset b + off \<and> offset b + off + int (calcsize t) \<le> int (length (buf b))"
  let ?a = "nat (offset b + off)"
  from a have len: "?a + calcsize t \<le> length (buf b)"
    by linarith
  then have "take (calcsize t) (drop ?a (buf b)) = map (\<lambda>i. buf b ! (?a + i)) [0..<calcsize t]"
    by (rule take_drop_nth)
  with a show "read_primitive b off t =
      Inr (unpack t (map (\<lambda>i. buf b ! (?a + i)) [0..<calcsize t]))"
    by (simp add: read_primitive_def unpack_from_nonneg)
  from len show "\<forall>i < calcsize t. ?a + i < length (buf b)"
    by auto
qed

theorem read_primitive_in_bounds_witness:
  "read_primitive (blob_at msg_fields) 16 uint64 = Inr 42 \<and>
   read_primitive (blob_at msg_fields) 25 uint64 = Inl StructError"
proof -
  have "0 \<le> offset (blob_at msg_fields) + 16 \<and>
      offset (blob_at msg_fields) + 16 + int (calcsize uint64) \<le>
        int (length (buf (blob_at msg_fields)))"
    and "int (length (buf (blob_at msg_fields))) <
      offset (blob_at msg_fields) + 25 + int (calcsize uint64)"
    by (simp_all add: blob_at_def msg_fields_def)
  with read_primitive_in_bounds [of "blob_at msg_fields" 16 uint64]
    read_primitive_in_bounds [of "blob_at msg_fields" 25 uint64]
  have "read_primitive (blob_at msg_fields) 16 uint64 =
      Inr (unpack uint64 (map (\<lambda>i. buf (blob_at msg_fields) !
        (nat (offset (blob_at msg_fields) + 16) + i)) [0..<calcsize uint64]))"
    and "read_primitive (blob_at msg_fields) 25 uint64 = Inl StructError"
    by blast+
  then show ?thesis
    by (simp add: blob_at_def msg_fields_def unpack_def upt_rec)
qed

text \<open>
  Claim C2 as stated covers every read. An accessor is accepted at the offset -3
  (the constructor only checks the offset against the length). Reading eight bytes at
  its field offset 0 gives the range from -3 to 5, which does not go past the eight
  bytes of the buffer, and yet the read fails and returns no value:
  \<^verbatim>\<open>struct.unpack_from\<close> counts a negative offset from the end of the buffer.
\<close>

theorem read_primitive_negative_offset_counterexample:
  "from_buffer ''Blob'' msg_null (- 3) [0] = Inr blob_before \<and>
   offset blob_before + 0 + int (calcsize int64) \<le> int (length (buf blob_before)) \<and>
   read_primitive blob_before 0 int64 = Inl StructError"
  by (simp add: blob_before_def msg_null_def from_buffer_def read_primitive_def unpack_from_def)

text \<open>
  At the absolute offset -8 the same read succeeds and returns the last eight bytes of
  the buffer.
\<close>

lemma read_primitive_from_the_end:
  "read_primitive \<lparr>cls = ''Blob'', buf = msg_fields, offset = - 8, segment_offsets = [0]\<rparr>
     0 uint64 = Inr 26984"
  by (simp add: msg_fields_def read_primitive_def unpack_from_def unpack_def)

subsection \<open>Text and data\<close>

text \<open>
  Claim C3, amended. For a non-null list of one-byte elements with a raw element
  count \<open>n\<close> of at least one, whose \<open>n\<close> bytes lie inside the buffer (from a
  non-negative absolute offset on): the data read returns exactly those \<open>n\<close> bytes and
  the text read returns the first \<open>n - 1\<close> of them, so the data result is one byte
  longer than the text result.
\<close>

theorem text_is_data_without_last_byte:
  assumes "deref_ptrlist b off = Inr (Some (lo, ListPtr_SIZE_8, n))"
    and "1 \<le> n"
    and "0 \<le> offset b + lo"
    and "offset b + lo + n \<le> int (length (buf b))"
  shows "\<exists>body chars.
           read_data b off = Inr (Some body) \<and>
           read_string b off = Inr (Some chars) \<and>
           body = map (\<lambda>i. buf b ! (nat (offset b + lo) + i)) [0..<nat n] \<and>
           chars = take (nat n - 1) body \<and>
           length body = nat n \<and>
           length body = length chars + 1"
proof -
  let ?body = "map (\<lambda>i. buf b ! (nat (offset b + lo) + i)) [0..<nat n]"
  have "slice (buf b) (offset b + lo) (offset b + lo + n) = ?body"
    using assms(2-4) slice_in_range [of "offset b + lo" "offset b + lo + n" "buf b"] by simp
  then have d_eq: "read_data b off = Inr (Some ?body)"
    using assms(1) by (simp add: read_data_def and_then_def Let_def)
  have "slice (buf b) (offset b + lo) (offset b + lo + n - 1) =
          map (\<lambda>i. buf b ! (nat (offset b + lo) + i)) [0..<nat n - 1]"
    using assms(2-4) slice_in_range [of "offset b + lo" "offset b + lo + n - 1" "buf b"]
    by (simp add: nat_diff_distrib')
  also have "\<dots> = take (nat n - 1) ?body"
    by (simp add: take_map)
  finally have t_eq: "read_string b off = Inr (Some (take (nat n - 1) ?body))"
    using assms(1) by (simp add: read_string_def and_then_def Let_def)
  have "length ?body = nat n" "length ?body = length (take (nat n - 1) ?body) + 1"
    using assms(2) by simp_all
  with d_eq t_eq show ?thesis
    by blast
qed

theorem text_is_data_without_last_byte_witness:
  "read_data (blob_at msg_fields) 8 = Inr (Some [0x68, 0x69, 0]) \<and>
   read_string (blob_at msg_fields) 8 = Inr (Some [0x68, 0x69])"
proof -
  have d: "deref_ptrlist (blob_at msg_fields) 8 = Inr (Some (24, ListPtr_SIZE_8, 3))"
    by (simp add: eval_defs msg_fields_def)
  have "1 \<le> (3::int)"
    and "0 \<le> offset (blob_at msg_fields) + 24"
    and "offset (blob_at msg_fields) + 24 + 3 \<le> int (length (buf (blob_at msg_fields)))"
    by (simp_all add: blob_at_def msg_fields_def)
  from text_is_data_without_last_byte [OF d this] show ?thesis
    by (auto simp: blob_at_def msg_fields_def upt_rec)
qed

text \<open>
  Claim C3 as stated covers every such list. In \<open>msg_short\<close> the list has three
  elements and the buffer holds two of them: the slices are clipped, and the data read
  and the text read return the same two bytes. In \<open>msg_empty\<close> the element count is
  zero: both reads return the empty sequence.
\<close>

theorem text_and_data_counterexample:
  "deref_ptrlist (blob_at msg_short) 0 = Inr (Some (8, ListPtr_SIZE_8, 3)) \<and>
   read_data (blob_at msg_short) 0 = Inr (Some [0x68, 0x69]) \<and>
   read_string (blob_at msg_short) 0 = Inr (Some [0x68, 0x69]) \<and>
   deref_ptrlist (blob_at msg_empty) 0 = Inr (Some (8, ListPtr_SIZE_8, 0)) \<and>
   read_data (blob_at msg_empty) 0 = Inr (Some []) \<and>
   read_string (blob_at msg_empty) 0 = Inr (Some [])"
  by (simp add: eval_defs msg_short_def msg_empty_def)

text \<open>
  Claim C5. When the list that a text or a data read dereferences is not null and
  its size tag is not that of one-byte elements, the read fails with the assertion on
  the size tag (the specification's TypeMismatchError) and returns no bytes.
\<close>

theorem text_and_data_need_size_8:
  assumes "deref_ptrlist b off = Inr (Some (lo, tag, n))"
    and "tag \<noteq> ListPtr_SIZE_8"
  shows "read_string b off = Inl (AssertionError SizeTagIsSize8) \<and>
         read_data b off = Inl (AssertionError SizeTagIsSize8)"
  using assms by (simp add: read_string_def read_data_def and_then_def)

theorem text_and_data_need_size_8_witness:
  "deref_ptrlist (blob_at msg_words) 0 = Inr (Some (8, 5, 1)) \<and>
   read_string (blob_at msg_words) 0 = Inl (AssertionError SizeTagIsSize8) \<and>
   read_data (blob_at msg_words) 0 = Inl (AssertionError SizeTagIsSize8)"
proof -
  have d: "deref_ptrlist (blob_at msg_words) 0 = Inr (Some (8, 5, 1))"
    by (simp add: eval_defs msg_words_def)
  have t: "(5::int) \<noteq> ListPtr_SIZE_8"
    by (simp add: ListPtr_SIZE_8_def)
  from d text_and_data_need_size_8 [OF d t] show ?thesis
    by simp
qed

text \<open>
  Claim C10 says that a text read of a one-byte list with element count zero returns
  the empty sequence. In \<open>msg_self\<close> such a list starts at byte 0 of the buffer: the
  source computes \<^verbatim>\<open>start = 0\<close> and \<^verbatim>\<open>end = -1\<close>, and the slice
  \<^verbatim>\<open>buf[0:-1]\<close> is the buffer without its last byte.
\<close>

theorem empty_text_at_buffer_start:
  "deref_ptrlist (blob_at msg_self) 0 = Inr (Some (0, ListPtr_SIZE_8, 0)) \<and>
   read_string (blob_at msg_self) 0 = Inr (Some [0xFD, 0xFF, 0xFF, 0xFF, 0x02, 0, 0])"
  by (simp add: eval_defs msg_self_def)

text \<open>At every other start the text read of an empty list is empty.\<close>

lemma read_string_empty_list:
  assumes "deref_ptrlist b off = Inr (Some (lo, ListPtr_SIZE_8, 0))"
    and "offset b + lo \<noteq> 0"
  shows "read_string b off = Inr (Some [])"
proof -
  have "clip_index (int (length (buf b))) (offset b + lo - 1) \<le>
        clip_index (int (length (buf b))) (offset b + lo)"
    using assms(2) by (auto simp: clip_index_def)
  then show ?thesis
    using assms(1) by (simp add: read_string_def and_then_def slice_def)
qed

subsection \<open>Enums and groups\<close>

text \<open>
  Claim C7, amended. For an enum read whose two bytes lie inside the buffer (the
  absolute offset is not negative and the offset plus two is within the length), the
  value read is the signed 16-bit little-endian number of the two bytes at the given
  offset: the first byte plus 256 times the second, less 65536 from 32768 on.
  \<open>read_enum\<close> checks no range and hands exactly that code to the enum class, so the
  result is what the class makes of the code. With an enum class as the specification
  has it (\<open>enum_new\<close>, where a code that names no variant is a valid unknown state) the
  read completes and returns the value with that code, whatever the members of the
  class are. The second part holds for every enum read: it fails only when the 16-bit
  read does, with \<open>StructError\<close>, and a code it reads lies between -32768 and 32767.
\<close>

theorem read_enum_keeps_code:
  "(0 \<le> offset b + off \<and> offset b + off + 2 \<le> int (length (buf b)) \<longrightarrow>
      (\<exists>v. v = (let u = uint (buf b ! nat (offset b + off)) +
                         256 * uint (buf b ! (nat (offset b + off) + 1))
                 in if u < 32768 then u else u - 65536) \<and>
           read_primitive b off int16 = Inr v \<and>
           read_enum b off enumtype = enumtype v \<and>
           read_enum b off (enum_new ms) = Inr \<lparr>members = ms, code = v\<rparr>)) \<and>
   (case read_primitive b off int16 of
      Inl e \<Rightarrow> e = StructError \<and> read_enum b off enumtype = Inl StructError
    | Inr v \<Rightarrow> - 32768 \<le> v \<and> v < 32768 \<and> read_enum b off enumtype = enumtype v \<and>
        read_enum b off (enum_new ms) = Inr \<lparr>members = ms, code = v\<rparr>)"
proof (intro conjI impI)
  assume a: "0 \<le> offset b + off \<and> offset b + off + 2 \<le> int (length (buf b))"
  let ?x = "buf b ! nat (offset b + off)" and ?y = "buf b ! (nat (offset b + off) + 1)"
  from a have "nat (offset b + off) + 2 \<le> length (buf b)"
    by linarith
  then have "take 2 (drop (nat (offset b + off)) (buf b)) = [?x, ?y]"
    by (simp add: take_drop_nth upt_rec)
  with a have "read_primitive b off int16 = Inr (le_sint [?x, ?y])"
    by (simp add: read_primitive_def unpack_from_nonneg unpack_def)
  then have r: "read_primitive b off int16 =
      Inr (let u = uint ?x + 256 * uint ?y in if u < 32768 then u else u - 65536)"
    by (simp only: le_sint_two_bytes)
  then show "\<exists>v. v = (let u = uint ?x + 256 * uint ?y in if u < 32768 then u else u - 65536) \<and>
      read_primitive b off int16 = Inr v \<and>
      read_enum b off enumtype = enumtype v \<and>
      read_enum b off (enum_new ms) = Inr \<lparr>members = ms, code = v\<rparr>"
    by (simp add: read_enum_def and_then_def enum_new_def)
next
  from unpack_from_cases [of int16 "buf b" "offset b + off"]
  show "case read_primitive b off int16 of
      Inl e \<Rightarrow> e = StructError \<and> read_enum b off enumtype = Inl StructError
    | Inr v \<Rightarrow> - 32768 \<le> v \<and> v < 32768 \<and> read_enum b off enumtype = enumtype v \<and>
        read_enum b off (enum_new ms) = Inr \<lparr>members = ms, code = v\<rparr>"
  proof
    assume "unpack_from int16 (buf b) (offset b + off) = Inl StructError"
    then show ?thesis
      by (simp add: read_primitive_def read_enum_def and_then_def)
  next
    assume "\<exists>bs. length bs = calcsize int16 \<and>
      unpack_from int16 (buf b) (offset b + off) = Inr (unpack int16 bs)"
    then obtain bs where bs: "length bs = 2"
      and r: "unpack_from int16 (buf b) (offset b + off) = Inr (le_sint bs)"
      by (auto simp: unpack_def)
    from bs have "bs \<noteq> []"
      by auto
    from le_sint_bounds [OF this] bs have "- 32768 \<le> le_sint bs \<and> le_sint bs < 32768"
      by simp
    with r show ?thesis
      by (simp add: read_primitive_def read_enum_def and_then_def enum_new_def)
  qed
qed

theorem read_enum_keeps_code_witness:
  "read_enum (blob_at msg_enum) 0 (enum_new [''red'', ''green'']) =
     Inr \<lparr>members = [''red'', ''green''], code = - 2\<rparr> \<and>
   enum_name \<lparr>members = [''red'', ''green''], code = - 2\<rparr> = None \<and>
   read_enum (blob_at msg_enum) 2 (enum_new [''red'', ''green'']) =
     Inr \<lparr>members = [''red'', ''green''], code = 4660\<rparr> \<and>
   enum_name \<lparr>members = [''red'', ''green''], code = 4660\<rparr> = None \<and>
   read_enum (blob_at msg_enum) 4 (enum_new [''red'', ''green'']) =
     Inr \<lparr>members = [''red'', ''green''], code = 1\<rparr> \<and>
   enum_name \<lparr>members = [''red'', ''green''], code = 1\<rparr> = Some ''green''"
proof -
  let ?b = "blob_at msg_enum" and ?ms = "[''red'', ''green'']"
  have "0 \<le> offset ?b + 0 \<and> offset ?b + 0 + 2 \<le> int (length (buf ?b))"
    and "0 \<le> offset ?b + 2 \<and> offset ?b + 2 + 2 \<le> int (length (buf ?b))"
    and "0 \<le> offset ?b + 4 \<and> offset ?b + 4 + 2 \<le> int (length (buf ?b))"
    by (simp_all add: blob_at_def msg_enum_def)
  with read_enum_keeps_code [of ?b 0 "enum_new ?ms" ?ms]
    read_enum_keeps_code [of ?b 2 "enum_new ?ms" ?ms]
    read_enum_keeps_code [of ?b 4 "enum_new ?ms" ?ms]
  have "read_enum ?b 0 (enum_new ?ms) = Inr \<lparr>members = ?ms,
      code = (let u = uint (buf ?b ! nat (offset ?b + 0)) +
                      256 * uint (buf ?b ! (nat (offset ?b + 0) + 1))
              in if u < 32768 then u else u - 65536)\<rparr>"
    and "read_enum ?b 2 (enum_new ?ms) = Inr \<lparr>members = ?ms,
      code = (let u = uint (buf ?b ! nat (offset ?b + 2)) +
                      256 * uint (buf ?b ! (nat (offset ?b + 2) + 1))
              in if u < 32768 then u else u - 65536)\<rparr>"
    and "read_enum ?b 4 (enum_new ?ms) = Inr \<lparr>members = ?ms,
      code = (let u = uint (buf ?b ! nat (offset ?b + 4)) +
                      256 * uint (buf ?b ! (nat (offset ?b + 4) + 1))
              in if u < 32768 then u else u - 65536)\<rparr>"
    by blast+
  then show ?thesis
    by (simp add: blob_at_def msg_enum_def enum_name_def)
qed

text \<open>
  Claim C7 as stated covers every enum read. The two bytes of the read at field offset
  31 of the 32 bytes of \<open>msg_fields\<close> do not lie inside the buffer; an accessor is
  accepted at the offset -1, and its read at field offset 0 starts at the last byte of
  the buffer. Both reads fail and yield no code.
\<close>

theorem read_enum_outside_buffer_counterexample:
  "read_enum (blob_at msg_fields) 31 (enum_new [''red'', ''green'']) = Inl StructError \<and>
   from_buffer ''Blob'' msg_fields (- 1) [0] =
     Inr \<lparr>cls = ''Blob'', buf = msg_fields, offset = - 1, segment_offsets = [0]\<rparr> \<and>
   read_enum \<lparr>cls = ''Blob'', buf = msg_fields, offset = - 1, segment_offsets = [0]\<rparr> 0
     (enum_new [''red'', ''green'']) = Inl StructError"
  by (simp add: blob_at_def msg_fields_def from_buffer_def read_enum_def read_primitive_def
      unpack_from_def and_then_def)

text \<open>
  The enum class is the caller's: with a class that rejects the codes naming no
  variant, the read of such a code fails.
\<close>

lemma read_enum_strict_class:
  "read_enum (blob_at msg_enum) 2 (\<lambda>v. if 0 \<le> v \<and> v < 2 then Inr v else Inl DecodeError) =
     Inl DecodeError"
  by (simp add: blob_at_def msg_enum_def read_enum_def read_primitive_def unpack_from_def
      unpack_def le_sint_def and_then_def)

text \<open>
  Claim C8. A group read on a constructed accessor returns an accessor of the group
  class with the same buffer, the same absolute offset and the same segment table:
  no pointer is followed and no offset is computed.
\<close>

theorem read_group_same_view:
  assumes "from_buffer c bf off segs = Inr b"
  shows "read_group b groupcls =
           Inr \<lparr>cls = groupcls, buf = buf b, offset = offset b,
                segment_offsets = segment_offsets b\<rparr>"
  using assms by (auto simp: read_group_def from_buffer_def split: if_splits)

theorem read_group_same_view_witness:
  "from_buffer ''Point'' msg_fields 16 [0] =
     Inr \<lparr>cls = ''Point'', buf = msg_fields, offset = 16, segment_offsets = [0]\<rparr> \<and>
   read_group \<lparr>cls = ''Point'', buf = msg_fields, offset = 16, segment_offsets = [0]\<rparr> ''Group'' =
     Inr \<lparr>cls = ''Group'', buf = msg_fields, offset = 16, segment_offsets = [0]\<rparr>"
proof -
  have c: "from_buffer ''Point'' msg_fields 16 [0] =
     Inr \<lparr>cls = ''Point'', buf = msg_fields, offset = 16, segment_offsets = [0]\<rparr>"
    by (simp add: from_buffer_def msg_fields_def)
  from c read_group_same_view [OF c, of "''Group''"] show ?thesis
    by simp
qed

subsection \<open>Derived accessors\<close>

lemma from_buffer_fields:
  "from_buffer c bf off segs = Inr s \<Longrightarrow> buf s = bf \<and> segment_offsets s = segs"
  by (auto simp: from_buffer_def split: if_splits)

lemma List_from_buffer_fields:
  "List_from_buffer c bf off segs tag n ty = Inr l \<Longrightarrow> buf l = bf \<and> segment_offsets l = segs"
  by (auto simp: List_from_buffer_def from_buffer_def and_then_def split: if_splits)

lemma GenericStruct_from_buffer_and_size_fields:
  "GenericStruct_from_buffer_and_size bf off segs ds ps = Inr s \<Longrightarrow>
   buf s = bf \<and> segment_offsets s = segs"
  by (auto simp: GenericStruct_from_buffer_and_size_def from_buffer_def and_then_def
      split: if_splits)

lemma and_then_Inr:
  "and_then r f = Inr y \<longleftrightarrow> (\<exists>x. r = Inr x \<and> f x = Inr y)"
  by (cases r) (simp_all add: and_then_def)

lemma read_struct_shares:
  assumes "read_struct b off structcls = Inr (Some s)"
  shows "buf s = buf b \<and> segment_offsets s = segment_offsets b"
  using assms
  by (auto simp: read_struct_def and_then_Inr split: option.splits dest: from_buffer_fields)

lemma read_list_shares:
  assumes "read_list b off listcls ty = Inr (Some l)"
  shows "buf l = buf b \<and> segment_offsets l = segment_offsets b"
  using assms
  by (auto simp: read_list_def and_then_Inr split: option.splits dest: List_from_buffer_fields)

lemma read_group_shares:
  assumes "read_group b groupcls = Inr g"
  shows "buf g = buf b \<and> segment_offsets g = segment_offsets b"
  using assms by (simp add: read_group_def from_buffer_fields)

lemma follow_generic_pointer_shares:
  assumes "follow_generic_pointer b off = Inr (Some r)"
  shows "case r of
           GenericStruct s \<Rightarrow> buf s = buf b \<and> segment_offsets s = segment_offsets b
         | GenericList l \<Rightarrow> buf l = buf b \<and> segment_offsets l = segment_offsets b"
  using assms
  by (auto simp: follow_generic_pointer_def and_then_Inr Let_def
      split: if_splits generic_ref.splits
      dest: GenericStruct_from_buffer_and_size_fields List_from_buffer_fields)

text \<open>
  Claim C9. Every accessor that a struct read, a list read, a group read or a
  generic pointer follow returns holds the buffer and the segment table of the
  accessor it was derived from.
\<close>

theorem derived_accessors_share_buffer:
  "(read_struct b off1 structcls = Inr (Some s) \<longrightarrow>
      buf s = buf b \<and> segment_offsets s = segment_offsets b) \<and>
   (read_list b off2 listcls ty = Inr (Some l) \<longrightarrow>
      buf l = buf b \<and> segment_offsets l = segment_offsets b) \<and>
   (read_group b groupcls = Inr g \<longrightarrow>
      buf g = buf b \<and> segment_offsets g = segment_offsets b) \<and>
   (follow_generic_pointer b off3 = Inr (Some (GenericStruct gs)) \<longrightarrow>
      buf gs = buf b \<and> segment_offsets gs = segment_offsets b) \<and>
   (follow_generic_pointer b off4 = Inr (Some (GenericList gl)) \<longrightarrow>
      buf gl = buf b \<and> segment_offsets gl = segment_offsets b)"
  using read_struct_shares [of b off1 structcls s] read_list_shares [of b off2 listcls ty l]
    read_group_shares [of b groupcls g]
    follow_generic_pointer_shares [of b off3 "GenericStruct gs"]
    follow_generic_pointer_shares [of b off4 "GenericList gl"]
  by simp

theorem derived_accessors_share_buffer_witness:
  "read_struct (blob_at msg_fields) 0 ''Point'' =
     Inr (Some \<lparr>cls = ''Point'', buf = msg_fields, offset = 16, segment_offsets = [0]\<rparr>) \<and>
   read_list (blob_at msg_fields) 8 ''List'' ''uint8'' =
     Inr (Some \<lparr>cls = ''List'', buf = msg_fields, offset = 24, segment_offsets = [0],
                 size_tag = 2, item_count = 3, item_type = ''uint8''\<rparr>) \<and>
   read_group (blob_at msg_fields) ''Group'' =
     Inr \<lparr>cls = ''Group'', buf = msg_fields, offset = 0, segment_offsets = [0]\<rparr> \<and>
   follow_generic_pointer (blob_at msg_fields) 0 =
     Inr (Some (GenericStruct
       \<lparr>cls = ''GenericStruct'', buf = msg_fields, offset = 16, segment_offsets = [0],
         data_size = 1, ptrs_size = 0\<rparr>)) \<and>
   follow_generic_pointer (blob_at msg_fields) 8 =
     Inr (Some (GenericList
       \<lparr>cls = ''List'', buf = msg_fields, offset = 24, segment_offsets = [0],
         size_tag = 2, item_count = 3, item_type = ''Blob''\<rparr>)) \<and>
   buf (blob_at msg_fields) = msg_fields \<and> segment_offsets (blob_at msg_fields) = [0]"
proof -
  let ?b = "blob_at msg_fields"
  let ?s = "\<lparr>cls = ''Point'', buf = msg_fields, offset = 16, segment_offsets = [0]\<rparr>"
  let ?l = "\<lparr>cls = ''List'', buf = msg_fields, offset = 24, segment_offsets = [0],
              size_tag = 2, item_count = 3, item_type = ''uint8''\<rparr>"
  let ?g = "\<lparr>cls = ''Group'', buf = msg_fields, offset = 0, segment_offsets = [0]\<rparr>"
  let ?gs = "\<lparr>cls = ''GenericStruct'', buf = msg_fields, offset = 16, segment_offsets = [0],
               data_size = 1, ptrs_size = 0\<rparr>"
  let ?gl = "\<lparr>cls = ''List'', buf = msg_fields, offset = 24, segment_offsets = [0],
               size_tag = 2, item_count = 3, item_type = ''Blob''\<rparr>"
  have s: "read_struct ?b 0 ''Point'' = Inr (Some ?s)"
    by (simp add: eval_defs msg_fields_def)
  have l: "read_list ?b 8 ''List'' ''uint8'' = Inr (Some ?l)"
    by (simp add: eval_defs msg_fields_def)
  have g: "read_group ?b ''Group'' = Inr ?g"
    by (simp add: eval_defs msg_fields_def)
  have gs: "follow_generic_pointer ?b 0 = Inr (Some (GenericStruct ?gs))"
    by (simp add: eval_defs msg_fields_def)
  have gl: "follow_generic_pointer ?b 8 = Inr (Some (GenericList ?gl))"
    by (simp add: eval_defs msg_fields_def)
  from s l g gs gl
    derived_accessors_share_buffer
      [of ?b 0 "''Point''" ?s 8 "''List''" "''uint8''" ?l "''Group''" ?g 0 ?gs 8 ?gl]
  show ?thesis
    by simp
qed

subsection \<open>Generic pointers\<close>

text \<open>
  What \<open>follow_generic_pointer\<close> does with a pointer word that is not null: a struct
  or a list pointer is dereferenced where it stands and gives a generic accessor with
  the sizes of the pointer; a far pointer is not followed.
\<close>

lemma follow_generic_pointer_kinds:
  assumes "read_ptr b off = Inr p" and "p \<noteq> 0"
  shows "follow_generic_pointer b off =
    (if ptr_kind p = 3 then Inl DecodeError
     else if ptr_kind p = StructPtr_KIND then
       (if offset b + deref p off < int (length (buf b))
        then Inr (Some (GenericStruct
          \<lparr>cls = ''GenericStruct'', buf = buf b, offset = offset b + deref p off,
            segment_offsets = segment_offsets b,
            data_size = ptr_data_size p, ptrs_size = ptr_ptrs_size p\<rparr>))
        else Inl (AssertionError OffsetInBuffer))
     else if ptr_kind p = ListPtr_KIND then
       (if offset b + deref p off < int (length (buf b))
        then Inr (Some (GenericList
          \<lparr>cls = ''List'', buf = buf b, offset = offset b + deref p off,
            segment_offsets = segment_offsets b,
            size_tag = ptr_size_tag p, item_count = ptr_item_count p,
            item_type = ''Blob''\<rparr>))
        else Inl (AssertionError OffsetInBuffer))
     else Inl (AssertionError UnknownPointerKind))"
  using assms
  by (simp add: follow_generic_pointer_def and_then_def specialize_def Let_def
      GenericStruct_from_buffer_and_size_def List_from_buffer_def from_buffer_def
      StructPtr_KIND_def ListPtr_KIND_def)

text \<open>
  Claim C4 says that a generic pointer follow resolves far pointers. In \<open>msg_far\<close> a
  far pointer leads to a struct: \<open>read_struct\<close> follows it to the struct at byte 16,
  while \<open>follow_generic_pointer\<close> does not follow it and fails with the assertion on
  the pointer kind.
\<close>

theorem generic_pointer_far:
  "read_struct (blob_at msg_far) 0 ''Point'' =
     Inr (Some \<lparr>cls = ''Point'', buf = msg_far, offset = 16, segment_offsets = [0]\<rparr>) \<and>
   follow_generic_pointer (blob_at msg_far) 0 = Inl (AssertionError UnknownPointerKind)"
  by (simp add: eval_defs msg_far_def)

subsection \<open>Construction\<close>

text \<open>
  Claim C6. Constructing an accessor from a buffer, an absolute byte offset and a
  segment table fails (with the assertion on the offset, the specification's
  BoundsError) when the offset is at or past the end of the buffer; when the offset is
  below the length of the buffer it succeeds, and the accessor stores exactly that
  buffer, that offset and that segment table.
\<close>

theorem from_buffer_checks_offset:
  "(int (length bf) \<le> off \<longrightarrow>
      from_buffer c bf off segs = Inl (AssertionError OffsetInBuffer)) \<and>
   (off < int (length bf) \<longrightarrow>
      (\<exists>b. from_buffer c bf off segs = Inr b \<and>
           buf b = bf \<and> offset b = off \<and> segment_offsets b = segs))"
  by (simp add: from_buffer_def)

theorem from_buffer_checks_offset_witness:
  "from_buffer ''Blob'' [1, 2, 3] 3 [0] = Inl (AssertionError OffsetInBuffer) \<and>
   (\<exists>b. from_buffer ''Blob'' [1, 2, 3] 2 [0] = Inr b \<and>
        buf b = [1, 2, 3] \<and> offset b = 2 \<and> segment_offsets b = [0])"
  using from_buffer_checks_offset [of "[1, 2, 3]" 3 "''Blob''" "[0]"]
    from_buffer_checks_offset [of "[1, 2, 3]" 2 "''Blob''" "[0]"]
  by simp

end
